theory Spec2Isabelle
  imports Complex_Main
begin

section \<open>The turtle deconfliction node\<close>

text \<open>
  A shallow embedding of \<^verbatim>\<open>TurtleDeconflictionNode\<close> of
  \<^verbatim>\<open>deconfliction_sys/two_d_decon_sys.py\<close>: the two pose callbacks, \<^verbatim>\<open>move_turtle\<close>,
  \<^verbatim>\<open>check_collision\<close> and \<^verbatim>\<open>avoid_collision\<close>.

  Conventions of the embedding.
  \<^item> Python floats are idealised as \<^typ>\<open>real\<close>: comparisons and the square root are exact,
    and there is no NaN and no infinity. Every constant of the code (0.0, 0.9, 1.0, 2.0, 9.0)
    is the real number it denotes.
  \<^item> The instance fields of the node are a record \<open>node\<close>; each method takes the node and
    returns the updated one.
  \<^item> Publishing on a velocity topic is an effect: the node carries the trace \<open>published\<close> of
    all messages published so far, oldest first, each tagged with the publisher that sent it.
  \<^item> Logging and the calls to the spawn and pen services do not touch the fields read by the
    control path and are left out.
\<close>

subsection \<open>Messages\<close>

text \<open>\<^verbatim>\<open>turtlesim.msg.Pose\<close>: the code reads only \<^verbatim>\<open>x\<close> and \<^verbatim>\<open>y\<close>.\<close>

record pose =
  pose_x :: real
  pose_y :: real
  pose_theta :: real
  pose_linear_velocity :: real
  pose_angular_velocity :: real

text \<open>\<^verbatim>\<open>geometry_msgs.msg.Twist\<close>: \<^verbatim>\<open>cmd.linear.x\<close> is \<open>linear_x\<close>, \<^verbatim>\<open>cmd.angular.z\<close> is
  \<open>angular_z\<close>.\<close>

record twist =
  linear_x :: real
  linear_y :: real
  linear_z :: real
  angular_x :: real
  angular_y :: real
  angular_z :: real

text \<open>The constructor \<^verbatim>\<open>Twist()\<close>: every component is 0.0.\<close>

definition Twist :: twist where
  "Twist = \<lparr>linear_x = 0, linear_y = 0, linear_z = 0,
            angular_x = 0, angular_y = 0, angular_z = 0\<rparr>"

subsection \<open>The node\<close>

text \<open>The two publishers created in \<^verbatim>\<open>__init__\<close>, on \<^verbatim>\<open>/turtle1/cmd_vel\<close> and
  \<^verbatim>\<open>/turtle2/cmd_vel\<close>.\<close>

datatype publisher = turtle1_vel_pub | turtle2_vel_pub

record node =
  previous_x_turtle1 :: real
  previous_y_turtle1 :: real
  previous_x_turtle2 :: real
  previous_y_turtle2 :: real
  turtle1_pose :: "pose option"
  turtle2_pose :: "pose option"
  published :: "(publisher \<times> twist) list"

text \<open>The fields as \<^verbatim>\<open>__init__\<close> leaves them (lines 16 to 23); nothing has been published.\<close>

definition init_node :: node where
  "init_node = \<lparr>previous_x_turtle1 = 0, previous_y_turtle1 = 0,
                previous_x_turtle2 = 0, previous_y_turtle2 = 0,
                turtle1_pose = None, turtle2_pose = None,
                published = []\<rparr>"

text \<open>\<^verbatim>\<open>pub.publish(cmd)\<close>.\<close>

definition publish :: "publisher \<Rightarrow> twist \<Rightarrow> node \<Rightarrow> node" where
  "publish pub cmd s = s\<lparr>published := published s @ [(pub, cmd)]\<rparr>"

text \<open>
  A Python call either returns or raises. \<^verbatim>\<open>move_turtle\<close> is the one method that is handed
  an agent name, so its result (and that of its callers) is a sum, \<open>Inl\<close> for a raised
  error. \<open>UnknownAgent\<close> is the error the specification names.
\<close>

datatype error = UnknownAgent

subsection \<open>\<^verbatim>\<open>move_turtle\<close>\<close>

text \<open>The local \<^verbatim>\<open>cmd\<close> of \<^verbatim>\<open>move_turtle\<close> (lines 75 to 81): a function of the pose alone.\<close>

definition move_turtle_cmd :: "pose \<Rightarrow> twist" where
  "move_turtle_cmd pose =
     (let cmd = Twist in
      if pose_x pose > 9 \<or> pose_x pose < 2 \<or> pose_y pose > 9 \<or> pose_y pose < 2
      then cmd\<lparr>linear_x := 1, angular_z := 0.9\<rparr>
      else cmd\<lparr>linear_x := 2, angular_z := 0\<rparr>)"

text \<open>Lines 83 to 88. A name that is neither \<^verbatim>\<open>"turtle1"\<close> nor \<^verbatim>\<open>"turtle2"\<close> falls through
  the \<^verbatim>\<open>if/elif\<close> and the method returns.\<close>

definition move_turtle :: "string \<Rightarrow> pose \<Rightarrow> node \<Rightarrow> error + node" where
  "move_turtle turtle_name pose s =
     (let cmd = move_turtle_cmd pose in
      if turtle_name = ''turtle1'' then
        Inr (publish turtle1_vel_pub cmd
               (s\<lparr>previous_x_turtle1 := pose_x pose, previous_y_turtle1 := pose_y pose\<rparr>))
      else if turtle_name = ''turtle2'' then
        Inr (publish turtle2_vel_pub cmd
               (s\<lparr>previous_x_turtle2 := pose_x pose, previous_y_turtle2 := pose_y pose\<rparr>))
      else Inr s)"

subsection \<open>\<^verbatim>\<open>avoid_collision\<close> and \<^verbatim>\<open>check_collision\<close>\<close>

definition avoid_collision :: "node \<Rightarrow> node" where
  "avoid_collision s =
     (let stop_cmd = Twist\<lparr>linear_x := 0\<rparr>;
          move_cmd = Twist\<lparr>linear_x := 2\<rparr>
      in publish turtle2_vel_pub move_cmd (publish turtle1_vel_pub stop_cmd s))"

text \<open>The local \<^verbatim>\<open>distance\<close> of \<^verbatim>\<open>check_collision\<close> (lines 94 and 95), as a function of
  the two stored poses. Here the differences, the squares, the sum and the square root are
  exact; the code computes each of them in IEEE double arithmetic and rounds. The two can
  fall on different sides of the threshold when the exact distance is within rounding
  error of 1: for two poses with equal \<open>y\<close>, one at \<open>x = 1\<close> and one at \<open>x\<close> equal to 2 to
  the power -60, the exact distance is below 1 and the code's is exactly 1.0. So nothing
  below is a statement about which poses the code takes to be in conflict at that boundary:
  the theorems that mention a conflict take the outcome of this test as a hypothesis and
  are about what is published then.\<close>

definition distance :: "pose \<Rightarrow> pose \<Rightarrow> real" where
  "distance p1 p2 = sqrt ((pose_x p1 - pose_x p2)\<^sup>2 + (pose_y p1 - pose_y p2)\<^sup>2)"

text \<open>A pose message is truthy, \<^verbatim>\<open>None\<close> is falsy: the guard of line 92 holds when both
  poses are stored. The threshold is the literal 1.0 of line 97.\<close>

definition check_collision :: "node \<Rightarrow> node" where
  "check_collision s =
     (case turtle1_pose s of
        None \<Rightarrow> s
      | Some p1 \<Rightarrow>
          (case turtle2_pose s of
             None \<Rightarrow> s
           | Some p2 \<Rightarrow> if distance p1 p2 < 1 then avoid_collision s else s))"

subsection \<open>The pose callbacks and the event loop\<close>

definition pose_callback_turtle1 :: "pose \<Rightarrow> node \<Rightarrow> error + node" where
  "pose_callback_turtle1 pose s =
     (case move_turtle ''turtle1'' pose (s\<lparr>turtle1_pose := Some pose\<rparr>) of
        Inl e \<Rightarrow> Inl e
      | Inr s' \<Rightarrow> Inr (check_collision s'))"

definition pose_callback_turtle2 :: "pose \<Rightarrow> node \<Rightarrow> error + node" where
  "pose_callback_turtle2 pose s =
     (case move_turtle ''turtle2'' pose (s\<lparr>turtle2_pose := Some pose\<rparr>) of
        Inl e \<Rightarrow> Inl e
      | Inr s' \<Rightarrow> Inr (check_collision s'))"

text \<open>A message arriving on one of the two subscriptions of lines 30 and 31.\<close>

datatype message = Turtle1Pose pose | Turtle2Pose pose

fun dispatch :: "message \<Rightarrow> node \<Rightarrow> error + node" where
  "dispatch (Turtle1Pose pose) s = pose_callback_turtle1 pose s"
| "dispatch (Turtle2Pose pose) s = pose_callback_turtle2 pose s"

text \<open>\<^verbatim>\<open>rclpy.spin\<close> on a finite sequence of messages: callbacks run one at a time, to
  completion, and an exception leaves the loop.\<close>

fun spin :: "message list \<Rightarrow> node \<Rightarrow> error + node" where
  "spin [] s = Inr s"
| "spin (m # ms) s = (case dispatch m s of Inl e \<Rightarrow> Inl e | Inr s' \<Rightarrow> spin ms s')"

subsection \<open>Notation for the statements\<close>

text \<open>The command \<open>{linear_speed: l, angular_speed: a}\<close>: a twist whose other four components
  are zero.\<close>

definition command :: "real \<Rightarrow> real \<Rightarrow> twist" where
  "command l a = \<lparr>linear_x = l, linear_y = 0, linear_z = 0,
                  angular_x = 0, angular_y = 0, angular_z = a\<rparr>"

text \<open>A pose at a position, heading and velocities zero.\<close>

definition pose_at :: "real \<Rightarrow> real \<Rightarrow> pose" where
  "pose_at a b = \<lparr>pose_x = a, pose_y = b, pose_theta = 0,
                  pose_linear_velocity = 0, pose_angular_velocity = 0\<rparr>"

section \<open>Basic facts\<close>

lemma move_turtle_cmd_turn:
  "pose_x p > 9 \<or> pose_x p < 2 \<or> pose_y p > 9 \<or> pose_y p < 2 \<Longrightarrow>
   move_turtle_cmd p = command 1 0.9"
  by (simp add: move_turtle_cmd_def Twist_def command_def)

lemma move_turtle_cmd_cruise:
  "2 \<le> pose_x p \<Longrightarrow> pose_x p \<le> 9 \<Longrightarrow> 2 \<le> pose_y p \<Longrightarrow> pose_y p \<le> 9 \<Longrightarrow>
   move_turtle_cmd p = command 2 0"
  by (simp add: move_turtle_cmd_def Twist_def command_def)

lemma published_avoid_collision:
  "published (avoid_collision s) =
   published s @ [(turtle1_vel_pub, command 0 0), (turtle2_vel_pub, command 2 0)]"
  by (simp add: avoid_collision_def publish_def Twist_def command_def)

lemma avoid_collision_fields:
  "turtle1_pose (avoid_collision s) = turtle1_pose s"
  "turtle2_pose (avoid_collision s) = turtle2_pose s"
  "previous_x_turtle1 (avoid_collision s) = previous_x_turtle1 s"
  "previous_y_turtle1 (avoid_collision s) = previous_y_turtle1 s"
  "previous_x_turtle2 (avoid_collision s) = previous_x_turtle2 s"
  "previous_y_turtle2 (avoid_collision s) = previous_y_turtle2 s"
  by (simp_all add: avoid_collision_def publish_def)


lemma check_collision_unknown:
  "turtle1_pose s = None \<or> turtle2_pose s = None \<Longrightarrow> check_collision s = s"
  by (auto simp add: check_collision_def split: option.splits)

lemma move_turtle_turtle1:
  "move_turtle ''turtle1'' p s =
   Inr (publish turtle1_vel_pub (move_turtle_cmd p)
          (s\<lparr>previous_x_turtle1 := pose_x p, previous_y_turtle1 := pose_y p\<rparr>))"
  by (simp add: move_turtle_def)

lemma move_turtle_turtle2:
  "move_turtle ''turtle2'' p s =
   Inr (publish turtle2_vel_pub (move_turtle_cmd p)
          (s\<lparr>previous_x_turtle2 := pose_x p, previous_y_turtle2 := pose_y p\<rparr>))"
  by (simp add: move_turtle_def)

lemma move_turtle_other:
  "n \<noteq> ''turtle1'' \<Longrightarrow> n \<noteq> ''turtle2'' \<Longrightarrow> move_turtle n p s = Inr s"
  by (simp add: move_turtle_def)

lemma move_turtle_cmd_position:
  "pose_x p = pose_x q \<Longrightarrow> pose_y p = pose_y q \<Longrightarrow> move_turtle_cmd p = move_turtle_cmd q"
  by (simp add: move_turtle_cmd_def)

lemma publish_fields:
  "turtle1_pose (publish pub c s) = turtle1_pose s"
  "turtle2_pose (publish pub c s) = turtle2_pose s"
  "previous_x_turtle1 (publish pub c s) = previous_x_turtle1 s"
  "previous_y_turtle1 (publish pub c s) = previous_y_turtle1 s"
  "previous_x_turtle2 (publish pub c s) = previous_x_turtle2 s"
  "previous_y_turtle2 (publish pub c s) = previous_y_turtle2 s"
  "published (publish pub c s) = published s @ [(pub, c)]"
  by (simp_all add: publish_def)

lemma check_collision_fields:
  "turtle1_pose (check_collision s) = turtle1_pose s"
  "turtle2_pose (check_collision s) = turtle2_pose s"
  "previous_x_turtle1 (check_collision s) = previous_x_turtle1 s"
  "previous_y_turtle1 (check_collision s) = previous_y_turtle1 s"
  "previous_x_turtle2 (check_collision s) = previous_x_turtle2 s"
  "previous_y_turtle2 (check_collision s) = previous_y_turtle2 s"
  by (simp_all add: check_collision_def avoid_collision_fields split: option.splits)

lemma published_check_collision:
  "published (check_collision s) =
   published s @
   (case turtle1_pose s of
      None \<Rightarrow> []
    | Some a \<Rightarrow>
        (case turtle2_pose s of
           None \<Rightarrow> []
         | Some b \<Rightarrow>
             if distance a b < 1
             then [(turtle1_vel_pub, command 0 0), (turtle2_vel_pub, command 2 0)]
             else []))"
  by (simp add: check_collision_def published_avoid_collision split: option.splits)

lemma pose_callback_turtle1_eq:
  "pose_callback_turtle1 p s =
   Inr (check_collision (publish turtle1_vel_pub (move_turtle_cmd p)
          (s\<lparr>turtle1_pose := Some p, previous_x_turtle1 := pose_x p,
             previous_y_turtle1 := pose_y p\<rparr>)))"
  by (simp add: pose_callback_turtle1_def move_turtle_turtle1)

lemma pose_callback_turtle2_eq:
  "pose_callback_turtle2 p s =
   Inr (check_collision (publish turtle2_vel_pub (move_turtle_cmd p)
          (s\<lparr>turtle2_pose := Some p, previous_x_turtle2 := pose_x p,
             previous_y_turtle2 := pose_y p\<rparr>)))"
  by (simp add: pose_callback_turtle2_def move_turtle_turtle2)

lemma dispatch_total: "\<exists>s'. dispatch m s = Inr s'"
  by (cases m) (simp_all add: pose_callback_turtle1_eq pose_callback_turtle2_eq)

lemma spin_total: "\<exists>s'. spin ms s = Inr s'"
proof (induction ms arbitrary: s)
  case Nil
  show ?case by simp
next
  case (Cons m ms)
  obtain s1 where "dispatch m s = Inr s1"
    using dispatch_total by blast
  with Cons.IH [of s1] show ?case by simp
qed

lemma dispatch_keeps_pose_unknown:
  assumes "dispatch m s = Inr s'"
  shows "turtle1_pose s' \<noteq> None \<Longrightarrow> turtle1_pose s \<noteq> None \<or> (\<exists>p. m = Turtle1Pose p)"
    and "turtle2_pose s' \<noteq> None \<Longrightarrow> turtle2_pose s \<noteq> None \<or> (\<exists>p. m = Turtle2Pose p)"
  using assms
  by (cases m; auto simp add: pose_callback_turtle1_eq pose_callback_turtle2_eq
      check_collision_fields publish_fields)+

lemma dispatch_commands_have_pose:
  assumes "dispatch m s = Inr s'"
    and "\<forall>c. (turtle1_vel_pub, c) \<in> set (published s) \<longrightarrow> turtle1_pose s \<noteq> None"
    and "\<forall>c. (turtle2_vel_pub, c) \<in> set (published s) \<longrightarrow> turtle2_pose s \<noteq> None"
  shows "(\<forall>c. (turtle1_vel_pub, c) \<in> set (published s') \<longrightarrow> turtle1_pose s' \<noteq> None) \<and>
         (\<forall>c. (turtle2_vel_pub, c) \<in> set (published s') \<longrightarrow> turtle2_pose s' \<noteq> None)"
proof (cases m)
  case (Turtle1Pose p)
  with assms(1) have s': "s' = check_collision (publish turtle1_vel_pub (move_turtle_cmd p)
          (s\<lparr>turtle1_pose := Some p, previous_x_turtle1 := pose_x p,
             previous_y_turtle1 := pose_y p\<rparr>))"
    by (simp add: pose_callback_turtle1_eq)
  show ?thesis
    using assms(3)
    by (auto simp add: s' published_check_collision check_collision_fields publish_fields
        split: option.splits if_splits)
next
  case (Turtle2Pose p)
  with assms(1) have s': "s' = check_collision (publish turtle2_vel_pub (move_turtle_cmd p)
          (s\<lparr>turtle2_pose := Some p, previous_x_turtle2 := pose_x p,
             previous_y_turtle2 := pose_y p\<rparr>))"
    by (simp add: pose_callback_turtle2_eq)
  show ?thesis
    using assms(2)
    by (auto simp add: s' published_check_collision check_collision_fields publish_fields
        split: option.splits if_splits)
qed

lemma spin_commands_have_pose:
  assumes "spin ms s = Inr s'"
    and "\<forall>c. (turtle1_vel_pub, c) \<in> set (published s) \<longrightarrow> turtle1_pose s \<noteq> None"
    and "\<forall>c. (turtle2_vel_pub, c) \<in> set (published s) \<longrightarrow> turtle2_pose s \<noteq> None"
  shows "(\<forall>c. (turtle1_vel_pub, c) \<in> set (published s') \<longrightarrow> turtle1_pose s' \<noteq> None) \<and>
         (\<forall>c. (turtle2_vel_pub, c) \<in> set (published s') \<longrightarrow> turtle2_pose s' \<noteq> None)"
  using assms
proof (induction ms arbitrary: s)
  case Nil
  then show ?case by simp
next
  case (Cons m ms)
  obtain s1 where s1: "dispatch m s = Inr s1"
    using dispatch_total by blast
  with Cons.prems(1) have rest: "spin ms s1 = Inr s'"
    by simp
  from dispatch_commands_have_pose [OF s1 Cons.prems(2) Cons.prems(3)]
  show ?case
    using Cons.IH [OF rest] by blast
qed

lemma spin_pose_known:
  assumes "spin ms s = Inr s'"
  shows "turtle1_pose s' \<noteq> None \<Longrightarrow> turtle1_pose s \<noteq> None \<or> (\<exists>p. Turtle1Pose p \<in> set ms)"
    and "turtle2_pose s' \<noteq> None \<Longrightarrow> turtle2_pose s \<noteq> None \<or> (\<exists>p. Turtle2Pose p \<in> set ms)"
  using assms
proof (induction ms arbitrary: s)
  case Nil
  {
    case 1
    then show ?case by simp
  next
    case 2
    then show ?case by simp
  }
next
  case (Cons m ms)
  {
    case 1
    obtain s1 where s1: "dispatch m s = Inr s1"
      using dispatch_total by blast
    with 1(2) have rest: "spin ms s1 = Inr s'"
      by simp
    from Cons.IH(1) [OF 1(1) rest] dispatch_keeps_pose_unknown(1) [OF s1]
    show ?case by auto
  next
    case 2
    obtain s1 where s1: "dispatch m s = Inr s1"
      using dispatch_total by blast
    with 2(2) have rest: "spin ms s1 = Inr s'"
      by simp
    from Cons.IH(2) [OF 2(1) rest] dispatch_keeps_pose_unknown(2) [OF s1]
    show ?case by auto
  }
qed

section \<open>Conflict resolution\<close>



section \<open>Boundary steering\<close>

text \<open>
  Claim C3, as stated, fails on a margin bound: the comparisons of line 76 are strict, so a
  pose with \<open>x = 9\<close> (and \<open>y\<close> within the margins) gets the cruise command, not the turn
  command.
\<close>

theorem steering_on_margin_counterexample:
  "move_turtle ''turtle1'' (pose_at 9 5) init_node =
     Inr (init_node\<lparr>previous_x_turtle1 := 9, previous_y_turtle1 := 5,
                     published := [(turtle1_vel_pub, command 2 0)]\<rparr>) \<and>
   move_turtle_cmd (pose_at 9 5) \<noteq> command 1 0.9"
  by (simp add: move_turtle_def move_turtle_cmd_def publish_def init_node_def pose_at_def
      Twist_def command_def)

text \<open>
  Claim C3, amended. For every pose inside the margins or on a margin bound
  (\<open>2 \<le> x \<le> 9\<close> and \<open>2 \<le> y \<le> 9\<close>) the steering step computes the cruise command
  \<open>{2, 0}\<close>; for every pose strictly beyond a margin bound (\<open>x > 9\<close>, \<open>x < 2\<close>, \<open>y > 9\<close>
  or \<open>y < 2\<close>) it computes the turn command \<open>{1, 0.9}\<close>. \<^verbatim>\<open>move_turtle\<close> publishes that
  command, and only that one, on the publisher of the turtle it is called for.
\<close>

theorem steering_strict_margins:
  "(2 \<le> pose_x p \<and> pose_x p \<le> 9 \<and> 2 \<le> pose_y p \<and> pose_y p \<le> 9 \<longrightarrow>
      move_turtle_cmd p = command 2 0) \<and>
   (pose_x p > 9 \<or> pose_x p < 2 \<or> pose_y p > 9 \<or> pose_y p < 2 \<longrightarrow>
      move_turtle_cmd p = command 1 0.9) \<and>
   (\<exists>s'. move_turtle ''turtle1'' p s = Inr s' \<and>
      published s' = published s @ [(turtle1_vel_pub, move_turtle_cmd p)]) \<and>
   (\<exists>s'. move_turtle ''turtle2'' p s = Inr s' \<and>
      published s' = published s @ [(turtle2_vel_pub, move_turtle_cmd p)])"
proof (intro conjI impI)
  assume "2 \<le> pose_x p \<and> pose_x p \<le> 9 \<and> 2 \<le> pose_y p \<and> pose_y p \<le> 9"
  then show "move_turtle_cmd p = command 2 0"
    by (simp add: move_turtle_cmd_cruise)
next
  assume "pose_x p > 9 \<or> pose_x p < 2 \<or> pose_y p > 9 \<or> pose_y p < 2"
  then show "move_turtle_cmd p = command 1 0.9"
    by (rule move_turtle_cmd_turn)
next
  show "\<exists>s'. move_turtle ''turtle1'' p s = Inr s' \<and>
      published s' = published s @ [(turtle1_vel_pub, move_turtle_cmd p)]"
    by (simp add: move_turtle_turtle1 publish_def)
next
  show "\<exists>s'. move_turtle ''turtle2'' p s = Inr s' \<and>
      published s' = published s @ [(turtle2_vel_pub, move_turtle_cmd p)]"
    by (simp add: move_turtle_turtle2 publish_def)
qed

theorem steering_strict_margins_witness:
  "move_turtle_cmd (pose_at 5 5) = command 2 0 \<and>
   move_turtle_cmd (pose_at 2 9) = command 2 0 \<and>
   move_turtle_cmd (pose_at 9.5 5) = command 1 0.9 \<and>
   move_turtle_cmd (pose_at 5 1) = command 1 0.9"
  using steering_strict_margins [of "pose_at 5 5" init_node]
    steering_strict_margins [of "pose_at 2 9" init_node]
    steering_strict_margins [of "pose_at 9.5 5" init_node]
    steering_strict_margins [of "pose_at 5 1" init_node]
  by (simp add: pose_at_def)

text \<open>
  Claim C10. The steering step reads only the position: two poses with the same \<open>x\<close> and
  \<open>y\<close> get the same command, and \<^verbatim>\<open>move_turtle\<close> as a whole behaves the same on them, whatever
  their headings (and velocities). Beyond any of the four margin bounds the angular speed
  of the command is 0.9, the same sign and size for every edge.
\<close>

theorem steering_ignores_heading:
  assumes "pose_x p = pose_x q" and "pose_y p = pose_y q"
  shows "move_turtle_cmd p = move_turtle_cmd q \<and>
         move_turtle n p s = move_turtle n q s \<and>
         (pose_x p > 9 \<or> pose_x p < 2 \<or> pose_y p > 9 \<or> pose_y p < 2 \<longrightarrow>
            angular_z (move_turtle_cmd p) = 0.9 \<and> angular_z (move_turtle_cmd q) = 0.9)"
proof -
  have cmd: "move_turtle_cmd p = move_turtle_cmd q"
    using assms by (rule move_turtle_cmd_position)
  have "move_turtle n p s = move_turtle n q s"
    using assms cmd by (simp add: move_turtle_def Let_def)
  moreover have "angular_z (move_turtle_cmd p) = 0.9"
    if "pose_x p > 9 \<or> pose_x p < 2 \<or> pose_y p > 9 \<or> pose_y p < 2"
    using move_turtle_cmd_turn [OF that] by (simp add: command_def)
  ultimately show ?thesis
    using cmd by simp
qed

theorem steering_ignores_heading_witness:
  "move_turtle_cmd (pose_at 9.5 5) = move_turtle_cmd ((pose_at 9.5 5)\<lparr>pose_theta := 3\<rparr>) \<and>
   move_turtle ''turtle2'' (pose_at 9.5 5) init_node =
     move_turtle ''turtle2'' ((pose_at 9.5 5)\<lparr>pose_theta := 3\<rparr>) init_node \<and>
   angular_z (move_turtle_cmd ((pose_at 9.5 5)\<lparr>pose_theta := 3\<rparr>)) = 0.9 \<and>
   angular_z (move_turtle_cmd ((pose_at 5 1)\<lparr>pose_theta := - 2\<rparr>)) = 0.9"
  using steering_ignores_heading
      [of "pose_at 9.5 5" "(pose_at 9.5 5)\<lparr>pose_theta := 3\<rparr>" "''turtle2''" init_node]
    steering_ignores_heading
      [of "pose_at 5 1" "(pose_at 5 1)\<lparr>pose_theta := - 2\<rparr>" "''turtle2''" init_node]
  by (simp add: pose_at_def)

section \<open>One pose update\<close>






section \<open>The stored poses and previous positions\<close>

text \<open>
  Claim C5, as stated, fails: after an update the previous-position fields hold the position
  of the new pose, not of the pose held before. Turtle1 reports (3, 4) and then (6, 7);
  afterwards \<open>previous_x_turtle1\<close> and \<open>previous_y_turtle1\<close> are 6 and 7, not 3 and 4.
\<close>

theorem previous_pose_shift_counterexample:
  "spin [Turtle1Pose (pose_at 3 4), Turtle1Pose (pose_at 6 7)] init_node =
   Inr \<lparr>previous_x_turtle1 = 6, previous_y_turtle1 = 7,
        previous_x_turtle2 = 0, previous_y_turtle2 = 0,
        turtle1_pose = Some (pose_at 6 7), turtle2_pose = None,
        published = [(turtle1_vel_pub, command 2 0), (turtle1_vel_pub, command 2 0)]\<rparr>"
  by (simp add: pose_callback_turtle1_eq check_collision_def publish_def init_node_def
      move_turtle_cmd_def Twist_def command_def pose_at_def)

text \<open>
  Claim C5, amended. Processing a pose update of a turtle stores the new pose as that
  turtle's current pose and overwrites that turtle's previous-position fields with the
  \<open>x\<close> and \<open>y\<close> of the new pose; the stored pose and the previous-position
  fields of the other turtle are unchanged.
\<close>

theorem pose_update_stores_new_position:
  "(\<exists>s'. pose_callback_turtle1 p s = Inr s' \<and>
      turtle1_pose s' = Some p \<and>
      previous_x_turtle1 s' = pose_x p \<and> previous_y_turtle1 s' = pose_y p \<and>
      turtle2_pose s' = turtle2_pose s \<and>
      previous_x_turtle2 s' = previous_x_turtle2 s \<and>
      previous_y_turtle2 s' = previous_y_turtle2 s) \<and>
   (\<exists>s'. pose_callback_turtle2 p s = Inr s' \<and>
      turtle2_pose s' = Some p \<and>
      previous_x_turtle2 s' = pose_x p \<and> previous_y_turtle2 s' = pose_y p \<and>
      turtle1_pose s' = turtle1_pose s \<and>
      previous_x_turtle1 s' = previous_x_turtle1 s \<and>
      previous_y_turtle1 s' = previous_y_turtle1 s)"
  by (simp add: pose_callback_turtle1_eq pose_callback_turtle2_eq check_collision_fields
      publish_fields)

text \<open>
  Claim C6, as stated, fails: \<^verbatim>\<open>move_turtle\<close> called with a name that is neither turtle1 nor
  turtle2 returns normally; no error is signalled.
\<close>

theorem unknown_agent_error_counterexample:
  "move_turtle ''turtle3'' (pose_at 5 5) init_node = Inr init_node \<and>
   move_turtle ''turtle3'' (pose_at 5 5) init_node \<noteq> Inl UnknownAgent"
  by (simp add: move_turtle_def)

text \<open>
  Claim C6, amended. For every pose update naming an agent other than turtle1 and turtle2,
  \<^verbatim>\<open>move_turtle\<close> returns normally without signalling an error and leaves the node as it
  was: no field changes and no velocity command is published for any agent.
\<close>

theorem unknown_agent_ignored:
  assumes "n \<noteq> ''turtle1''" and "n \<noteq> ''turtle2''"
  shows "move_turtle n p s = Inr s"
  using assms by (rule move_turtle_other)

theorem unknown_agent_ignored_witness: "move_turtle ''turtle3'' (pose_at 5 5) init_node = Inr init_node"
  using unknown_agent_ignored [of "''turtle3''" "pose_at 5 5" init_node] by simp

section \<open>Sequences of updates\<close>

text \<open>
  Claim C7. Started from the node as constructed, the event loop processes every finite
  sequence of pose messages to the end, and in the node it reaches a command published for
  a turtle implies that this turtle has a stored pose and that a pose message of this turtle
  is among those processed. As this holds after every sequence, before its first pose a
  turtle is sent no command. The conflict commands in particular: whenever
  \<^verbatim>\<open>check_collision\<close> publishes anything, both poses are stored.
\<close>

theorem commands_only_after_first_pose:
  "(\<exists>s. spin ms init_node = Inr s) \<and>
   (\<forall>s c. spin ms init_node = Inr s \<longrightarrow>
      ((turtle1_vel_pub, c) \<in> set (published s) \<longrightarrow>
         turtle1_pose s \<noteq> None \<and> (\<exists>p. Turtle1Pose p \<in> set ms)) \<and>
      ((turtle2_vel_pub, c) \<in> set (published s) \<longrightarrow>
         turtle2_pose s \<noteq> None \<and> (\<exists>p. Turtle2Pose p \<in> set ms))) \<and>
   (\<forall>s. published (check_collision s) \<noteq> published s \<longrightarrow>
      turtle1_pose s \<noteq> None \<and> turtle2_pose s \<noteq> None)"
proof (intro conjI allI impI)
  show "\<exists>s. spin ms init_node = Inr s"
    by (rule spin_total)
next
  fix s c
  assume run: "spin ms init_node = Inr s" and c: "(turtle1_vel_pub, c) \<in> set (published s)"
  have "turtle1_pose s \<noteq> None"
    using spin_commands_have_pose [OF run] c by (auto simp add: init_node_def)
  then show "turtle1_pose s \<noteq> None" .
  from \<open>turtle1_pose s \<noteq> None\<close> spin_pose_known(1) [OF run]
  show "\<exists>p. Turtle1Pose p \<in> set ms"
    by (simp add: init_node_def)
next
  fix s c
  assume run: "spin ms init_node = Inr s" and c: "(turtle2_vel_pub, c) \<in> set (published s)"
  have "turtle2_pose s \<noteq> None"
    using spin_commands_have_pose [OF run] c by (auto simp add: init_node_def)
  then show "turtle2_pose s \<noteq> None" .
  from \<open>turtle2_pose s \<noteq> None\<close> spin_pose_known(2) [OF run]
  show "\<exists>p. Turtle2Pose p \<in> set ms"
    by (simp add: init_node_def)
next
  fix s
  assume "published (check_collision s) \<noteq> published s"
  then show "turtle1_pose s \<noteq> None" and "turtle2_pose s \<noteq> None"
    by (auto simp add: published_check_collision split: option.splits)
qed

theorem commands_only_after_first_pose_witness:
  "spin [Turtle1Pose (pose_at 5 5)] init_node =
     Inr (init_node\<lparr>previous_x_turtle1 := 5, previous_y_turtle1 := 5,
                     turtle1_pose := Some (pose_at 5 5),
                     published := [(turtle1_vel_pub, command 2 0)]\<rparr>) \<and>
   (\<exists>p. Turtle1Pose p \<in> set [Turtle1Pose (pose_at 5 5)])"
proof -
  have run: "spin [Turtle1Pose (pose_at 5 5)] init_node =
     Inr (init_node\<lparr>previous_x_turtle1 := 5, previous_y_turtle1 := 5,
                     turtle1_pose := Some (pose_at 5 5),
                     published := [(turtle1_vel_pub, command 2 0)]\<rparr>)"
    by (simp add: pose_callback_turtle1_eq check_collision_def publish_def init_node_def
        move_turtle_cmd_def Twist_def command_def pose_at_def)
  have sent: "(turtle1_vel_pub, command 2 0) \<in>
     set (published (init_node\<lparr>previous_x_turtle1 := 5, previous_y_turtle1 := 5,
                     turtle1_pose := Some (pose_at 5 5),
                     published := [(turtle1_vel_pub, command 2 0)]\<rparr>))"
    by simp
  from commands_only_after_first_pose [of "[Turtle1Pose (pose_at 5 5)]"] run sent
  have "\<exists>p. Turtle1Pose p \<in> set [Turtle1Pose (pose_at 5 5)]"
    by blast
  with run show ?thesis
    by blast
qed

text \<open>
  Claim C9. Take two nodes that store the same poses for both turtles and differ in any way
  in their previous-position fields (and in what they have published so far). Processing
  the same pose message in both publishes the same commands, in the same order, and the two
  nodes store the same poses afterwards: the previous-position fields influence no command.
\<close>

theorem previous_position_noninterference:
  assumes "turtle1_pose s = turtle1_pose t" and "turtle2_pose s = turtle2_pose t"
  shows "\<exists>out s' t'. dispatch m s = Inr s' \<and> dispatch m t = Inr t' \<and>
           published s' = published s @ out \<and> published t' = published t @ out \<and>
           turtle1_pose s' = turtle1_pose t' \<and> turtle2_pose s' = turtle2_pose t'"
proof (cases m)
  case (Turtle1Pose p)
  with assms show ?thesis
    by (simp add: pose_callback_turtle1_eq published_check_collision publish_fields
        check_collision_fields split: option.splits)
next
  case (Turtle2Pose p)
  with assms show ?thesis
    by (simp add: pose_callback_turtle2_eq published_check_collision publish_fields
        check_collision_fields split: option.splits)
qed

theorem previous_position_noninterference_witness:
  "\<exists>out s' t'.
     dispatch (Turtle1Pose (pose_at 5 5))
       (init_node\<lparr>turtle2_pose := Some (pose_at 5.5 5.5)\<rparr>) = Inr s' \<and>
     dispatch (Turtle1Pose (pose_at 5 5))
       (init_node\<lparr>turtle2_pose := Some (pose_at 5.5 5.5),
                   previous_x_turtle1 := 7, previous_y_turtle1 := 8,
                   previous_x_turtle2 := 1, previous_y_turtle2 := 10\<rparr>) = Inr t' \<and>
     published s' = out \<and> published t' = out \<and>
     turtle1_pose s' = turtle1_pose t' \<and> turtle2_pose s' = turtle2_pose t'"
  using previous_position_noninterference
    [of "init_node\<lparr>turtle2_pose := Some (pose_at 5.5 5.5)\<rparr>"
        "init_node\<lparr>turtle2_pose := Some (pose_at 5.5 5.5),
                    previous_x_turtle1 := 7, previous_y_turtle1 := 8,
                    previous_x_turtle2 := 1, previous_y_turtle2 := 10\<rparr>"
        "Turtle1Pose (pose_at 5 5)"]
  by (simp add: init_node_def)

end
